theory Spec2Isabelle
  imports Complex_Main "HOL-Library.Word"
begin

section \<open>Go values used by \<open>audio_segment.go\<close>\<close>

text \<open>
  The package works on byte slices, fixed-width unsigned integers and the platform
  integer \<open>int\<close>. A Go slice is a window into a backing array: it has a length and a
  capacity, and a slice expression \<open>s[lo:hi]\<close> is checked against the capacity, not the
  length. A slice value is therefore modelled by the bytes inside its window
  (\<open>elems\<close>) together with the bytes of the backing array that follow the window up to
  the capacity (\<open>spare\<close>). The model gives each slice value its own copy of these
  bytes: what an operation returns is exact, while the sharing of one backing array
  between several slices is not represented.

  A runtime panic is a value of type \<open>error\<close>; a function that may panic returns
  \<open>error + 'a\<close> with \<open>Inl\<close> for the panic.
\<close>

type_synonym byte = "8 word"

record byte_slice =
  elems :: "byte list"
  spare :: "byte list"

datatype error =
    NilDereference
  | DivideByZero
  | SliceBoundsOutOfRange
  | CrossfadeLongerThanOriginal int int
  | CrossfadeLongerThanAppended int int
  | MissingReturn
  | FmtHeaderNotFound
  | UnknownAudioFormat "16 word"
  | DataHeaderNotFound
  | Sample24Bit
  | IOFailure

definition go_len :: "byte_slice \<Rightarrow> nat" where
  "go_len s = length (elems s)"

definition go_cap :: "byte_slice \<Rightarrow> nat" where
  "go_cap s = length (elems s) + length (spare s)"

definition backing :: "byte_slice \<Rightarrow> byte list" where
  "backing s = elems s @ spare s"

text \<open>
  The slice expression \<open>s[lo:hi]\<close>: it panics unless \<open>0 \<le> lo \<le> hi \<le> cap(s)\<close>; the
  result starts at \<open>lo\<close>, has length \<open>hi - lo\<close> and keeps the rest of the backing array
  as capacity.
\<close>

definition reslice :: "byte_slice \<Rightarrow> int \<Rightarrow> int \<Rightarrow> error + byte_slice" where
  "reslice s lo hi =
     (if 0 \<le> lo \<and> lo \<le> hi \<and> hi \<le> int (go_cap s)
      then Inr \<lparr>elems = take (nat hi - nat lo) (drop (nat lo) (backing s)),
                spare = drop (nat hi) (backing s)\<rparr>
      else Inl SliceBoundsOutOfRange)"

text \<open>
  The builtin \<open>append(a, b...)\<close>: when the capacity of \<open>a\<close> has room for \<open>b\<close> the bytes
  are written behind the window of \<open>a\<close>; otherwise a new zeroed array is allocated whose
  capacity is chosen by the runtime. That choice is the parameter \<open>grow\<close> (old capacity,
  needed length), and the runtime never allocates less than the needed length.
\<close>

definition go_append :: "(nat \<Rightarrow> nat \<Rightarrow> nat) \<Rightarrow> byte_slice \<Rightarrow> byte_slice \<Rightarrow> byte_slice" where
  "go_append grow a b =
     (if go_len a + go_len b \<le> go_cap a
      then \<lparr>elems = elems a @ elems b, spare = drop (go_len b) (spare a)\<rparr>
      else \<lparr>elems = elems a @ elems b,
            spare = replicate (max (go_len a + go_len b) (grow (go_cap a) (go_len a + go_len b))
                               - (go_len a + go_len b)) 0\<rparr>)"

text \<open>
  Go's \<open>int\<close> on a 64-bit platform: arithmetic wraps around in two's complement.
\<close>

definition int64 :: "int \<Rightarrow> int" where
  "int64 x = signed_take_bit 63 x"

text \<open>
  Rounding of a non-negative quotient \<open>n / d\<close> to the nearest integer, halves away from
  zero, computed exactly.
\<close>

definition round_div :: "int \<Rightarrow> int \<Rightarrow> int" where
  "round_div n d = (2 * n + d) div (2 * d)"

text \<open>
  What the language leaves to the implementation, and what the model does not compute,
  is a parameter of the model:
  \<^item> \<open>int_of_nan\<close> and \<open>int_of_inf\<close> are the results of converting a NaN and the
    positive infinity of \<open>float64\<close> to \<open>int\<close>. The conversion does not panic; its result
    is implementation-dependent.
  \<^item> \<open>round_large n d\<close> is the value of \<open>int(math.Round(1000 * float64(n) / float64(d)))\<close>
    where the quotient is \<open>2\<^sup>2\<^sup>0\<close> or more. Below that bound \<open>1000 * n\<close> is less than
    \<open>2\<^sup>5\<^sup>2\<close> and exact in \<open>float64\<close>, and the correctly rounded quotient cannot reach a
    half-integer that the exact quotient does not reach: for a divisor below \<open>2\<^sup>3\<^sup>2\<close> the
    exact quotient is a half-integer or at least \<open>2\<^sup>-\<^sup>3\<^sup>3\<close> away from one, and the
    rounding error is at most \<open>2\<^sup>-\<^sup>3\<^sup>4\<close>. There the source computes \<open>round_div\<close>.
\<close>

record platform =
  int_of_nan :: int
  int_of_inf :: int
  round_large :: "int \<Rightarrow> int \<Rightarrow> int"

section \<open>The audio segment and its derived metrics\<close>

record AudioSegment =
  data :: "byte_slice option"
  channels :: "16 word"
  frame_rate :: "32 word"
  frame_width :: "16 word"
  sample_width :: "16 word"

text \<open>\<open>NewAudioSegment\<close> returns the zero value of the struct: a nil data pointer.\<close>

definition NewAudioSegment :: AudioSegment where
  "NewAudioSegment =
     \<lparr>data = None, channels = 0, frame_rate = 0, frame_width = 0, sample_width = 0\<rparr>"

text \<open>
  \<open>len(*p.data) / int(p.frame_width)\<close>: the pointer is dereferenced while the operands
  are evaluated, the division follows.
\<close>

definition FrameCount :: "AudioSegment \<Rightarrow> error + int" where
  "FrameCount p =
     (case data p of
        None \<Rightarrow> Inl NilDereference
      | Some d \<Rightarrow>
          if frame_width p = 0 then Inl DivideByZero
          else Inr (int (go_len d) div uint (frame_width p)))"

text \<open>
  \<open>ms * (int(p.frame_rate) / 1000.0)\<close>: the untyped constant \<open>1000.0\<close> takes the type
  of the other operand, so the division is the integer division of \<open>int\<close>.
\<close>

definition FrameCountMs :: "AudioSegment \<Rightarrow> int \<Rightarrow> int" where
  "FrameCountMs p ms = int64 (ms * (uint (frame_rate p) div 1000))"

text \<open>
  \<open>int(math.Round(1000 * float64(p.FrameCount()) / float64(p.frame_rate)))\<close>. The
  division is one of \<open>float64\<close> and does not panic: with \<open>frame_rate = 0\<close> the quotient is
  a NaN when the frame count is zero and the positive infinity otherwise, and the
  conversion to \<open>int\<close> returns the value of the platform.
\<close>

definition Len :: "platform \<Rightarrow> AudioSegment \<Rightarrow> error + int" where
  "Len plat p =
     (case FrameCount p of
        Inl e \<Rightarrow> Inl e
      | Inr n \<Rightarrow>
          if frame_rate p = 0
          then Inr (if n = 0 then int_of_nan plat else int_of_inf plat)
          else if 1000 * n < 2 ^ 20 * uint (frame_rate p)
          then Inr (round_div (1000 * n) (uint (frame_rate p)))
          else Inr (round_large plat n (uint (frame_rate p))))"

definition spawn :: "AudioSegment \<Rightarrow> byte_slice option \<Rightarrow> AudioSegment" where
  "spawn p d = p\<lparr>data := d\<rparr>"

definition Slice :: "AudioSegment \<Rightarrow> int \<Rightarrow> int \<Rightarrow> error + AudioSegment" where
  "Slice p start end =
     (case data p of
        None \<Rightarrow> Inl NilDereference
      | Some d \<Rightarrow>
          (case reslice d start end of
             Inl e \<Rightarrow> Inl e
           | Inr d' \<Rightarrow> Inr (spawn p (Some d'))))"

definition parsePosition :: "platform \<Rightarrow> AudioSegment \<Rightarrow> int \<Rightarrow> error + int" where
  "parsePosition plat p val =
     (if val < 0
      then (case Len plat p of
              Inl e \<Rightarrow> Inl e
            | Inr l \<Rightarrow> Inr (FrameCountMs p (int64 (l + val))))
      else Inr (FrameCountMs p val))"

definition Overlay :: "AudioSegment \<Rightarrow> AudioSegment \<Rightarrow> AudioSegment" where
  "Overlay p seg = p"

definition Fade :: "AudioSegment \<Rightarrow> AudioSegment" where
  "Fade p = p"

text \<open>
  \<open>AppendCrossfage\<close>. With \<open>crossfade = 0\<close> the two buffers are appended. Otherwise the
  two length checks panic with a message; past them the source slices, fades and
  overlays, and its body ends there without a \<open>return\<close> statement: reaching the end of the
  body is the value \<open>MissingReturn\<close>.
\<close>

definition AppendCrossfage ::
  "(nat \<Rightarrow> nat \<Rightarrow> nat) \<Rightarrow> platform \<Rightarrow> AudioSegment \<Rightarrow> AudioSegment \<Rightarrow> int
   \<Rightarrow> error + AudioSegment" where
  "AppendCrossfage grow plat p seg crossfade =
     (if crossfade = 0
      then (case data p of
              None \<Rightarrow> Inl NilDereference
            | Some a \<Rightarrow>
                (case data seg of
                   None \<Rightarrow> Inl NilDereference
                 | Some b \<Rightarrow> Inr (spawn p (Some (go_append grow a b)))))
      else (case Len plat p of
              Inl e \<Rightarrow> Inl e
            | Inr lp \<Rightarrow>
                if crossfade > lp then Inl (CrossfadeLongerThanOriginal crossfade lp)
                else (case Len plat seg of
                        Inl e \<Rightarrow> Inl e
                      | Inr ls \<Rightarrow>
                          if crossfade > ls then Inl (CrossfadeLongerThanAppended crossfade ls)
                          else (case Slice p (int64 (- crossfade)) lp of
                                  Inl e \<Rightarrow> Inl e
                                | Inr tail_seg \<Rightarrow>
                                    (case Slice seg 0 crossfade of
                                       Inl e \<Rightarrow> Inl e
                                     | Inr head_seg \<Rightarrow>
                                         (let xf = Fade tail_seg;
                                              mixed = Overlay xf (Fade head_seg)
                                          in Inl MissingReturn))))))"


section \<open>Reading the WAV container\<close>

record WavSubChunk =
  id_chunk :: "byte list"
  position :: "32 word"
  size_chunk :: "32 word"

record WavData =
  audio_format :: "16 word"
  channels_wav :: "16 word"
  sample_rate :: "32 word"
  bits_per_sample :: "16 word"
  raw_data :: byte_slice

datatype ByteOrder = LittleEndian | BigEndian

text \<open>
  \<open>binary.Read\<close> into a \<open>uint32\<close> (a \<open>uint16\<close>): with fewer bytes than the integer needs
  it reports an error, which the source ignores, and the variable keeps its zero value.
\<close>

fun bytes2UInt :: "byte list \<Rightarrow> ByteOrder \<Rightarrow> 32 word" where
  "bytes2UInt (b0 # b1 # b2 # b3 # rest) LittleEndian =
     ucast b0 + push_bit 8 (ucast b1) + push_bit 16 (ucast b2) + push_bit 24 (ucast b3)"
| "bytes2UInt (b0 # b1 # b2 # b3 # rest) BigEndian =
     ucast b3 + push_bit 8 (ucast b2) + push_bit 16 (ucast b1) + push_bit 24 (ucast b0)"
| "bytes2UInt b order = 0"

fun bytes2UShort :: "byte list \<Rightarrow> ByteOrder \<Rightarrow> 16 word" where
  "bytes2UShort (b0 # b1 # rest) LittleEndian = ucast b0 + push_bit 8 (ucast b1)"
| "bytes2UShort (b0 # b1 # rest) BigEndian = ucast b1 + push_bit 8 (ucast b0)"
| "bytes2UShort b order = 0"

definition data_tag :: "byte list" where
  "data_tag = [0x64, 0x61, 0x74, 0x61]"

definition fmt_tag :: "byte list" where
  "fmt_tag = [0x66, 0x6D, 0x74, 0x20]"

text \<open>
  The loop of \<open>extract_wav_headers\<close>, with the position and the chunks found so far as
  arguments. All position arithmetic is that of \<open>uint32\<close>. The loop ends after at most
  ten rounds, since every round appends one chunk.
\<close>

function scan_chunks ::
  "byte_slice \<Rightarrow> 32 word \<Rightarrow> WavSubChunk list \<Rightarrow> error + WavSubChunk list" where
  "scan_chunks d pos subchunks =
     (if pos + 8 < word_of_nat (go_len d) \<and> length subchunks < 10
      then (case reslice d (uint pos) (uint (pos + 4)) of
              Inl e \<Rightarrow> Inl e
            | Inr subchunk_id \<Rightarrow>
                (case reslice d (uint (pos + 4)) (uint (pos + 8)) of
                   Inl e \<Rightarrow> Inl e
                 | Inr sz \<Rightarrow>
                     (if elems subchunk_id = data_tag
                      then Inr (subchunks @
                                [\<lparr>id_chunk = elems subchunk_id, position = pos,
                                   size_chunk = bytes2UInt (elems sz) LittleEndian\<rparr>])
                      else scan_chunks d (pos + (bytes2UInt (elems sz) LittleEndian + 8))
                             (subchunks @
                              [\<lparr>id_chunk = elems subchunk_id, position = pos,
                                 size_chunk = bytes2UInt (elems sz) LittleEndian\<rparr>]))))
      else Inr subchunks)"
  by pat_completeness auto
termination
  by (relation "measure (\<lambda>(d, pos, subchunks). 10 - length subchunks)") auto

definition extract_wav_headers :: "byte_slice \<Rightarrow> error + WavSubChunk list" where
  "extract_wav_headers d = scan_chunks d 12 []"

definition read_wav_data :: "byte_slice \<Rightarrow> error + WavData" where
  "read_wav_data d =
     (case extract_wav_headers d of
        Inl e \<Rightarrow> Inl e
      | Inr headers \<Rightarrow>
          (case filter (\<lambda>h. id_chunk h = fmt_tag) headers of
             [] \<Rightarrow> Inl FmtHeaderNotFound
           | format # others \<Rightarrow>
               if size_chunk format < 16 then Inl FmtHeaderNotFound
               else (case reslice d (uint (position format + 8)) (uint (position format + 8 + 2)) of
                 Inl e \<Rightarrow> Inl e
               | Inr af \<Rightarrow>
                   if bytes2UShort (elems af) LittleEndian \<noteq> 1
                      \<and> bytes2UShort (elems af) LittleEndian \<noteq> 0xFFFE
                   then Inl (UnknownAudioFormat (bytes2UShort (elems af) LittleEndian))
                   else (case reslice d (uint (position format + 8 + 2))
                                        (uint (position format + 8 + 4)) of
                     Inl e \<Rightarrow> Inl e
                   | Inr ch \<Rightarrow>
                       (case reslice d (uint (position format + 8 + 4))
                                       (uint (position format + 8 + 8)) of
                          Inl e \<Rightarrow> Inl e
                        | Inr sr \<Rightarrow>
                            (case reslice d (uint (position format + 8 + 14))
                                            (uint (position format + 8 + 16)) of
                               Inl e \<Rightarrow> Inl e
                             | Inr bps \<Rightarrow>
                                 if id_chunk (last headers) \<noteq> data_tag then Inl DataHeaderNotFound
                                 else (case reslice d (uint (position (last headers) + 8))
                                              (uint (position (last headers) + 8
                                                     + size_chunk (last headers))) of
                                   Inl e \<Rightarrow> Inl e
                                 | Inr raw \<Rightarrow>
                                     Inr \<lparr>audio_format = bytes2UShort (elems af) LittleEndian,
                                          channels_wav = bytes2UShort (elems ch) LittleEndian,
                                          sample_rate = bytes2UInt (elems sr) LittleEndian,
                                          bits_per_sample = bytes2UShort (elems bps) LittleEndian,
                                          raw_data = raw\<rparr>)))))))"

text \<open>
  Files. An open handle is represented by the buffer that \<open>ioutil.ReadAll\<close> returns on
  it; \<open>fs\<close> maps a path to that buffer where opening the path succeeds. A fresh
  temporary file is empty, and \<open>ReadAll\<close> returns on it an empty slice of its initial
  buffer of 512 bytes.
\<close>

definition fd_or_tempfile :: "(string \<rightharpoonup> byte_slice) \<Rightarrow> string \<Rightarrow> bool \<Rightarrow> error + byte_slice" where
  "fd_or_tempfile fs file tempfile =
     (if file = [] \<and> tempfile then Inr \<lparr>elems = [], spare = replicate 512 0\<rparr>
      else (case fs file of None \<Rightarrow> Inl IOFailure | Some d \<Rightarrow> Inr d))"

definition new_audio_segment_with_wav :: "byte_slice \<Rightarrow> error + AudioSegment" where
  "new_audio_segment_with_wav d =
     (case read_wav_data d of
        Inl e \<Rightarrow> Inl e
      | Inr w \<Rightarrow>
          if bits_per_sample w div 8 = 3 then Inl Sample24Bit
          else Inr \<lparr>data = Some (raw_data w),
                    channels = channels_wav w,
                    frame_rate = sample_rate w,
                    frame_width = channels_wav w * (bits_per_sample w div 8),
                    sample_width = bits_per_sample w div 8\<rparr>)"

definition from_safe_wav :: "(string \<rightharpoonup> byte_slice) \<Rightarrow> string \<Rightarrow> error + AudioSegment" where
  "from_safe_wav fs file =
     (case fd_or_tempfile fs file False of
        Inl e \<Rightarrow> Inl e
      | Inr f \<Rightarrow> new_audio_segment_with_wav f)"

text \<open>\<open>From_file\<close> returns a pointer; \<open>None\<close> is the nil pointer.\<close>

definition From_file :: "(string \<rightharpoonup> byte_slice) \<Rightarrow> string \<Rightarrow> string \<Rightarrow> error + AudioSegment option" where
  "From_file fs file format =
     (if format = ''wav''
      then (case from_safe_wav fs file of Inl e \<Rightarrow> Inl e | Inr obj \<Rightarrow> Inr (Some obj))
      else Inr None)"

section \<open>Writing\<close>

text \<open>
  What \<open>Export\<close> does to the outside world is a list of events, paired with the panic
  that ended the call, if any. \<open>creatable\<close> holds the paths \<open>os.Create\<close> accepts, and
  \<open>rejected\<close> the headers (channels, sample rate, significant bits) for which the WAV
  library refuses to make a writer.
\<close>

datatype io_event =
    Created string
  | WavWritten string "16 word" "32 word" "16 word" "byte list"

definition saveWav ::
  "(16 word \<times> 32 word \<times> 16 word) set \<Rightarrow> AudioSegment \<Rightarrow> string \<Rightarrow> io_event list \<times> error option" where
  "saveWav rejected p file =
     (if (channels p, frame_rate p, sample_width p * 8) \<in> rejected then ([], Some IOFailure)
      else (case data p of
              None \<Rightarrow> ([], Some NilDereference)
            | Some d \<Rightarrow>
                ([WavWritten file (channels p) (frame_rate p) (sample_width p * 8) (elems d)],
                 None)))"

definition Export ::
  "string set \<Rightarrow> (16 word \<times> 32 word \<times> 16 word) set \<Rightarrow> AudioSegment \<Rightarrow> string \<Rightarrow> string
   \<Rightarrow> io_event list \<times> error option" where
  "Export creatable rejected p out_f format =
     (if format = ''wav''
      then (if out_f \<in> creatable
            then (Created out_f # fst (saveWav rejected p out_f),
                  snd (saveWav rejected p out_f))
            else ([], Some IOFailure))
      else ([], None))"

section \<open>Concrete inputs\<close>

text \<open>
  The inputs at which the theorems below are evaluated. \<open>exact_fit\<close> is a runtime that
  allocates exactly the needed length. \<open>linux_amd64\<close> is the platform on which the
  conversion of a NaN or an infinity to \<open>int\<close> gives \<open>-2\<^sup>6\<^sup>3\<close>; the rounding of large
  quotients stays its argument. \<open>seg_1k\<close> is a mono segment of 8-bit samples at
  1000 Hz, where one millisecond is one frame and one byte; \<open>seg_decoded\<close>, \<open>seg_100\<close>
  and \<open>seg_rate0\<close> carry the metadata of a mono 16-bit file at 8000 Hz, at 100 Hz and with
  the sample rate 0. The buffers are WAV files: one whose data chunk is empty and ends
  the file, one whose first chunk declares a size that wraps the position around, one
  with a byte behind its two data bytes, and one whose format chunk declares the sample
  rate 0.
\<close>

definition linux_amd64 :: "(int \<Rightarrow> int \<Rightarrow> int) \<Rightarrow> platform" where
  "linux_amd64 large =
     \<lparr>int_of_nan = - (2 ^ 63), int_of_inf = - (2 ^ 63), round_large = large\<rparr>"

definition exact_fit :: "nat \<Rightarrow> nat \<Rightarrow> nat" where
  "exact_fit old needed = needed"

definition seg_1k :: "byte list \<Rightarrow> byte list \<Rightarrow> AudioSegment" where
  "seg_1k bs rest =
     \<lparr>data = Some \<lparr>elems = bs, spare = rest\<rparr>, channels = 1,
      frame_rate = 1000, frame_width = 1, sample_width = 1\<rparr>"

definition seg_decoded :: "byte list \<Rightarrow> byte list \<Rightarrow> AudioSegment" where
  "seg_decoded bs rest =
     \<lparr>data = Some \<lparr>elems = bs, spare = rest\<rparr>, channels = 1,
      frame_rate = 8000, frame_width = 2, sample_width = 2\<rparr>"


definition seg_rate0 :: "byte list \<Rightarrow> byte list \<Rightarrow> AudioSegment" where
  "seg_rate0 bs rest =
     \<lparr>data = Some \<lparr>elems = bs, spare = rest\<rparr>, channels = 1,
      frame_rate = 0, frame_width = 2, sample_width = 2\<rparr>"

definition seg_44100 :: AudioSegment where
  "seg_44100 =
     \<lparr>data = Some \<lparr>elems = replicate 441 0, spare = []\<rparr>, channels = 1,
      frame_rate = 44100, frame_width = 1, sample_width = 1\<rparr>"

definition empty_buffer_segment :: "16 word \<Rightarrow> 32 word \<Rightarrow> AudioSegment" where
  "empty_buffer_segment fw fr =
     \<lparr>data = Some \<lparr>elems = [], spare = []\<rparr>, channels = 0,
      frame_rate = fr, frame_width = fw, sample_width = 0\<rparr>"

definition wav_empty_data :: "byte list" where
  "wav_empty_data =
     [0x52, 0x49, 0x46, 0x46,  36, 0, 0, 0,  0x57, 0x41, 0x56, 0x45,
      0x66, 0x6D, 0x74, 0x20,  16, 0, 0, 0,
      1, 0,  1, 0,  0x40, 0x1F, 0, 0,  0x80, 0x3E, 0, 0,  2, 0,  16, 0,
      0x64, 0x61, 0x74, 0x61,  0, 0, 0, 0]"

definition wav_wrapping_size :: "byte list" where
  "wav_wrapping_size =
     [0x52, 0x49, 0x46, 0x46,  13, 0, 0, 0,  0x57, 0x41, 0x56, 0x45,
      0x4A, 0x55, 0x4E, 0x4B,  0xE8, 0xFF, 0xFF, 0xFF,  0]"

definition wav_trailing :: "byte list" where
  "wav_trailing =
     [0x52, 0x49, 0x46, 0x46,  39, 0, 0, 0,  0x57, 0x41, 0x56, 0x45,
      0x66, 0x6D, 0x74, 0x20,  16, 0, 0, 0,
      1, 0,  1, 0,  0x40, 0x1F, 0, 0,  0x80, 0x3E, 0, 0,  2, 0,  16, 0,
      0x64, 0x61, 0x74, 0x61,  2, 0, 0, 0,  1, 2, 7]"

definition wav_rate0 :: "byte list" where
  "wav_rate0 =
     [0x52, 0x49, 0x46, 0x46,  38, 0, 0, 0,  0x57, 0x41, 0x56, 0x45,
      0x66, 0x6D, 0x74, 0x20,  16, 0, 0, 0,
      1, 0,  1, 0,  0, 0, 0, 0,  0, 0, 0, 0,  2, 0,  16, 0,
      0x64, 0x61, 0x74, 0x61,  2, 0, 0, 0,  1, 2]"

section \<open>Arithmetic of the duration\<close>

lemma round_div_nonneg: "0 \<le> n \<Longrightarrow> 0 < d \<Longrightarrow> 0 \<le> round_div n d"
  by (simp add: round_div_def pos_imp_zdiv_nonneg_iff)

text \<open>\<open>round_div\<close> is rounding to the nearest integer of the exact quotient.\<close>

lemma round_div_is_round: "0 < d \<Longrightarrow> round_div n d = round (of_int n / of_int d :: real)"
proof -
  assume d: "0 < d"
  have "(of_int n / of_int d :: real) + 1 / 2 = of_int (2 * n + d) / of_int (2 * d)"
    using d by (simp add: field_simps)
  then have "round (of_int n / of_int d :: real)
             = \<lfloor>(of_int (2 * n + d) / of_int (2 * d) :: real)\<rfloor>"
    by (simp add: round_def)
  also have "\<dots> = (2 * n + d) div (2 * d)"
    by (rule floor_divide_of_int_eq)
  finally show ?thesis by (simp add: round_div_def)
qed



lemma uint_pos: "w \<noteq> 0 \<Longrightarrow> 0 < uint w"
  using uint_0_iff [of w] uint_ge_0 [of w] by linarith

lemma int64_neg: "0 < c \<Longrightarrow> c \<le> 2 ^ 63 \<Longrightarrow> int64 (- c) = - c"
  unfolding int64_def by (rule signed_take_bit_int_eq_self) simp_all

section \<open>Derived metrics\<close>

lemma FrameCount_nonneg: "FrameCount p = Inr n \<Longrightarrow> 0 \<le> n"
  by (auto simp: FrameCount_def pos_imp_zdiv_nonneg_iff uint_pos split: option.splits if_splits)

lemma Len_error: "Len plat p = Inl e \<Longrightarrow> e \<noteq> MissingReturn"
  by (auto simp: Len_def FrameCount_def split: option.splits if_splits)

text \<open>
  Decoding the file \<open>wav_rate0\<close> gives a segment of one frame with the frame rate 0.
\<close>

lemma decode_wav_rate0:
  "new_audio_segment_with_wav \<lparr>elems = wav_rate0, spare = []\<rparr> = Inr (seg_rate0 [1, 2] [])"
  by (simp add: new_audio_segment_with_wav_def read_wav_data_def extract_wav_headers_def
      wav_rate0_def seg_rate0_def go_len_def reslice_def go_cap_def backing_def
      data_tag_def fmt_tag_def)

text \<open>
  Without overflow the conversion from milliseconds to frames multiplies by the whole
  number of frames per millisecond; below 1000 Hz that number is zero.
\<close>

lemma FrameCountMs_exact:
  "- (2 ^ 63) \<le> ms * (uint (frame_rate p) div 1000)
   \<Longrightarrow> ms * (uint (frame_rate p) div 1000) < 2 ^ 63
   \<Longrightarrow> FrameCountMs p ms = ms * (uint (frame_rate p) div 1000)"
  unfolding FrameCountMs_def int64_def by (rule signed_take_bit_int_eq_self) simp_all

lemma FrameCountMs_below_1000: "frame_rate p < 1000 \<Longrightarrow> FrameCountMs p ms = 0"
  by (simp add: FrameCountMs_def int64_def word_less_def)

text \<open>
  Claim C2, evaluated on the source: a mono 8-bit segment at 44100 Hz with 441 frames
  lasts 10 ms, and the conversion of 10 ms gives 440 frames, not the 441 frames of the
  segment, because \<open>int(p.frame_rate) / 1000.0\<close> is the integer 44.
\<close>

theorem frame_conversion_truncates:
  "FrameCount seg_44100 = Inr 441 \<and> Len plat seg_44100 = Inr 10
   \<and> FrameCountMs seg_44100 10 = 440"
  by (simp add: FrameCount_def Len_def FrameCountMs_def seg_44100_def go_len_def round_div_def
      int64_def)

text \<open>
  Claim C10, as stated, fails at the zero value: on the segment that \<open>NewAudioSegment\<close>
  returns, \<open>FrameCount\<close> ends at the dereference of the nil data pointer, which comes
  before the division, and so does \<open>Len\<close>.
\<close>

theorem zero_segment_nil_dereference:
  "FrameCount NewAudioSegment = Inl NilDereference
   \<and> FrameCount NewAudioSegment \<noteq> Inl DivideByZero
   \<and> Len (linux_amd64 round_div) NewAudioSegment = Inl NilDereference"
  by (simp add: FrameCount_def Len_def NewAudioSegment_def)

text \<open>
  Claim C10, amended: \<open>FrameCount\<close> and \<open>Len\<close> each return a value exactly when the data
  pointer is not nil and \<open>frame_width\<close> is not zero. With a nil pointer both end at the
  dereference; with a buffer and \<open>frame_width = 0\<close> both end at the integer division by
  zero. A \<open>frame_rate\<close> of zero does not make \<open>Len\<close> fail: with a buffer and a non-zero
  \<open>frame_width\<close> it returns the integer that the platform gives for a NaN when the frame
  count is zero, and for the positive infinity otherwise.
\<close>

theorem derived_metrics_defined_iff:
  "((\<exists>n. FrameCount p = Inr n) \<longleftrightarrow> data p \<noteq> None \<and> frame_width p \<noteq> 0)
   \<and> ((\<exists>l. Len plat p = Inr l) \<longleftrightarrow> data p \<noteq> None \<and> frame_width p \<noteq> 0)
   \<and> (data p = None
        \<longrightarrow> FrameCount p = Inl NilDereference \<and> Len plat p = Inl NilDereference)
   \<and> (data p \<noteq> None \<and> frame_width p = 0
        \<longrightarrow> FrameCount p = Inl DivideByZero \<and> Len plat p = Inl DivideByZero)
   \<and> (frame_width p \<noteq> 0 \<and> frame_rate p = 0
        \<longrightarrow> (FrameCount p = Inr 0 \<longrightarrow> Len plat p = Inr (int_of_nan plat))
            \<and> (\<forall>n. FrameCount p = Inr n \<and> n \<noteq> 0 \<longrightarrow> Len plat p = Inr (int_of_inf plat)))"
  by (auto simp: FrameCount_def Len_def split: option.splits)

text \<open>
  Claim C10, the amended statement at the zero value, at a segment with an empty buffer
  and \<open>frame_width = 0\<close>, at a segment without frames and at a decoded segment of one
  frame that both have \<open>frame_rate = 0\<close>, and at a segment where both metrics are
  defined by the metadata.
\<close>

theorem derived_metrics_defined_iff_witness:
  "FrameCount NewAudioSegment = Inl NilDereference
   \<and> Len (linux_amd64 round_div) NewAudioSegment = Inl NilDereference
   \<and> FrameCount (empty_buffer_segment 0 0) = Inl DivideByZero
   \<and> Len (linux_amd64 round_div) (empty_buffer_segment 0 0) = Inl DivideByZero
   \<and> FrameCount (empty_buffer_segment 2 0) = Inr 0
   \<and> Len (linux_amd64 round_div) (empty_buffer_segment 2 0) = Inr (- (2 ^ 63))
   \<and> FrameCount (seg_rate0 [1, 2] []) = Inr 1
   \<and> Len (linux_amd64 round_div) (seg_rate0 [1, 2] []) = Inr (- (2 ^ 63))
   \<and> FrameCount (empty_buffer_segment 2 8000) = Inr 0
   \<and> Len (linux_amd64 round_div) (empty_buffer_segment 2 8000) = Inr 0"
proof -
  have fc: "FrameCount (empty_buffer_segment 2 0) = Inr 0"
    "FrameCount (seg_rate0 [1, 2] []) = Inr 1"
    "FrameCount (empty_buffer_segment 2 8000) = Inr 0"
    by (simp_all add: FrameCount_def empty_buffer_segment_def seg_rate0_def go_len_def)
  have l: "Len (linux_amd64 round_div) (empty_buffer_segment 2 8000) = Inr 0"
    by (simp add: Len_def FrameCount_def empty_buffer_segment_def go_len_def round_div_def)
  show ?thesis
    using fc l
      derived_metrics_defined_iff [of NewAudioSegment "linux_amd64 round_div"]
      derived_metrics_defined_iff [of "empty_buffer_segment 0 0" "linux_amd64 round_div"]
      derived_metrics_defined_iff [of "empty_buffer_segment 2 0" "linux_amd64 round_div"]
      derived_metrics_defined_iff [of "seg_rate0 [1, 2] []" "linux_amd64 round_div"]
    by (simp add: NewAudioSegment_def empty_buffer_segment_def seg_rate0_def linux_amd64_def)
qed

section \<open>Slicing\<close>

lemma Slice_error: "Slice p start end = Inl e \<Longrightarrow> e \<noteq> MissingReturn"
  by (auto simp: Slice_def reslice_def split: option.splits if_splits)

lemma Slice_negative_start: "start < 0 \<Longrightarrow> \<exists>e. Slice p start end = Inl e"
  by (simp add: Slice_def reslice_def split: option.splits)

lemma Slice_negative_end: "end < 0 \<Longrightarrow> \<exists>e. Slice p 0 end = Inl e"
  by (simp add: Slice_def reslice_def split: option.splits)

text \<open>
  Decoding the file \<open>wav_trailing\<close> gives a segment of two sample bytes whose buffer
  keeps the byte behind the data chunk as capacity.
\<close>

lemma decode_wav_trailing:
  "new_audio_segment_with_wav \<lparr>elems = wav_trailing, spare = []\<rparr>
   = Inr (seg_decoded [1, 2] [7])"
  by (simp add: new_audio_segment_with_wav_def read_wav_data_def extract_wav_headers_def
      wav_trailing_def seg_decoded_def go_len_def reslice_def go_cap_def backing_def
      data_tag_def fmt_tag_def)

text \<open>
  Claim C3, evaluated on the source: on a segment of 4 ms, \<open>Slice(-1, 4)\<close> panics with
  the bounds error of the runtime while \<open>Slice(4 - 1, 4)\<close> returns the last byte.
  \<open>parsePosition\<close> resolves the negative position to 3, but \<open>Slice\<close> does not call it.
\<close>

theorem negative_start_not_resolved:
  "Len plat (seg_1k [1, 2, 3, 4] []) = Inr 4
   \<and> Slice (seg_1k [1, 2, 3, 4] []) (- 1) 4 = Inl SliceBoundsOutOfRange
   \<and> Slice (seg_1k [1, 2, 3, 4] []) (4 - 1) 4 = Inr (seg_1k [4] [])
   \<and> parsePosition plat (seg_1k [1, 2, 3, 4] []) (- 1) = Inr 3"
  by (simp add: Len_def FrameCount_def Slice_def reslice_def spawn_def parsePosition_def
      FrameCountMs_def seg_1k_def go_len_def go_cap_def backing_def round_div_def int64_def)

text \<open>
  Claim C4, as stated, fails on a decoded segment: the segment read from \<open>wav_trailing\<close>
  holds two bytes of samples, the range from 0 to 3 is not contained in them, and
  \<open>Slice\<close> returns three bytes, the third being the byte behind the data chunk.
\<close>

theorem slice_beyond_length_counterexample:
  "new_audio_segment_with_wav \<lparr>elems = wav_trailing, spare = []\<rparr>
     = Inr (seg_decoded [1, 2] [7])
   \<and> \<not> (3::int) \<le> int (length [1::byte, 2])
   \<and> Slice (seg_decoded [1, 2] [7]) 0 3 = Inr (seg_decoded [1, 2, 7] [])"
  by (simp add: new_audio_segment_with_wav_def read_wav_data_def extract_wav_headers_def
      wav_trailing_def seg_decoded_def go_len_def reslice_def go_cap_def backing_def
      data_tag_def fmt_tag_def Slice_def spawn_def)

text \<open>
  Claim C4, amended: on a segment with a buffer, \<open>Slice\<close> fails with the bounds error
  of the runtime exactly when its endpoints, taken as byte offsets, do not satisfy
  \<open>0 \<le> start \<le> end \<le> cap\<close> for the capacity of the buffer; otherwise it returns a
  segment with the same metadata whose buffer holds the bytes from \<open>start\<close> to \<open>end\<close>
  of the backing array, which are the bytes of that range of the samples when \<open>end\<close>
  does not exceed their length.
\<close>

theorem slice_checked_against_capacity:
  assumes "data p = Some d"
  shows "(\<not> (0 \<le> start \<and> start \<le> end \<and> end \<le> int (go_cap d))
            \<longrightarrow> Slice p start end = Inl SliceBoundsOutOfRange)
         \<and> (0 \<le> start \<and> start \<le> end \<and> end \<le> int (go_cap d)
            \<longrightarrow> (\<exists>d'. Slice p start end = Inr (p\<lparr>data := Some d'\<rparr>)
                      \<and> elems d' = take (nat (end - start)) (drop (nat start) (elems d @ spare d))
                      \<and> (end \<le> int (go_len d)
                           \<longrightarrow> elems d' = take (nat (end - start)) (drop (nat start) (elems d)))))"
  using assms
  by (auto simp: Slice_def reslice_def spawn_def backing_def go_cap_def go_len_def nat_diff_distrib)

text \<open>
  Claim C4, the amended statement on a segment of four bytes with one byte of
  capacity behind them: the range from 1 to 3 is returned, the range from 2 to 6 and a
  range with its start behind its end are refused.
\<close>

theorem slice_checked_against_capacity_witness:
  "data (seg_1k [1, 2, 3, 4] [9]) = Some \<lparr>elems = [1, 2, 3, 4], spare = [9]\<rparr>
   \<and> Slice (seg_1k [1, 2, 3, 4] [9]) 1 3 = Inr (seg_1k [2, 3] [4, 9])
   \<and> Slice (seg_1k [1, 2, 3, 4] [9]) 2 6 = Inl SliceBoundsOutOfRange
   \<and> Slice (seg_1k [1, 2, 3, 4] [9]) 3 2 = Inl SliceBoundsOutOfRange"
proof -
  have d: "data (seg_1k [1, 2, 3, 4] [9]) = Some \<lparr>elems = [1, 2, 3, 4], spare = [9]\<rparr>"
    by (simp add: seg_1k_def)
  have ok: "Slice (seg_1k [1, 2, 3, 4] [9]) 1 3 = Inr (seg_1k [2, 3] [4, 9])"
    by (simp add: Slice_def reslice_def spawn_def backing_def go_cap_def seg_1k_def)
  show ?thesis
    using d ok slice_checked_against_capacity [OF d, of 2 6]
      slice_checked_against_capacity [OF d, of 3 2]
      slice_checked_against_capacity [OF d, of 1 3]
    by (simp add: go_cap_def)
qed

section \<open>Overlay and fade\<close>

text \<open>
  Claim C5, as stated, fails: overlaying a segment of one frame with a segment of two
  frames returns the first segment instead of failing, and overlaying a segment whose
  only sample is 1 with itself returns the sample 1, not the sum.
\<close>

theorem overlay_counterexample:
  "FrameCount (seg_1k [1] []) = Inr 1 \<and> FrameCount (seg_1k [1, 1] []) = Inr 2
   \<and> Overlay (seg_1k [1] []) (seg_1k [1, 1] []) = seg_1k [1] []
   \<and> data (Overlay (seg_1k [1] []) (seg_1k [1] [])) = Some \<lparr>elems = [1], spare = []\<rparr>
   \<and> data (Overlay (seg_1k [1] []) (seg_1k [1] [])) \<noteq> Some \<lparr>elems = [1 + 1], spare = []\<rparr>"
  by (simp add: Overlay_def FrameCount_def seg_1k_def go_len_def)

text \<open>
  Claim C5, amended: \<open>Overlay\<close> returns its receiver unchanged for every argument, and
  \<open>Fade\<close> returns its receiver unchanged; no samples are summed, no lengths or formats
  are compared, and neither operation fails.
\<close>

theorem overlay_fade_return_receiver:
  "Overlay p seg = p \<and> Fade p = p"
  by (simp add: Overlay_def Fade_def)

section \<open>Appending\<close>



text \<open>
  With a crossfade other than zero, \<open>AppendCrossfage\<close> never yields a segment: it ends in
  one of the two length checks or in a bounds error of \<open>Slice\<close>, since \<open>Slice\<close> is
  handed the negative start \<open>-crossfade\<close> for a positive crossfade and the negative end
  \<open>crossfade\<close> for a negative one. The end of the body is never reached.
\<close>

lemma AppendCrossfage_nonzero_fails:
  assumes nz: "crossfade \<noteq> 0" and hi: "crossfade < 2 ^ 63"
  shows "\<exists>e. AppendCrossfage grow plat p seg crossfade = Inl e \<and> e \<noteq> MissingReturn"
proof (cases "Len plat p")
  case (Inl e)
  with nz show ?thesis by (simp add: AppendCrossfage_def Len_error)
next
  case lp: (Inr lp)
  show ?thesis
  proof (cases "Len plat seg")
    case (Inl e)
    with nz lp show ?thesis by (simp add: AppendCrossfage_def Len_error)
  next
    case ls: (Inr ls)
    show ?thesis
    proof (cases "lp < crossfade \<or> ls < crossfade")
      case True
      with nz lp ls show ?thesis by (auto simp: AppendCrossfage_def)
    next
      case False
      show ?thesis
      proof (cases "Slice p (int64 (- crossfade)) lp")
        case (Inl e)
        with nz lp ls False show ?thesis by (simp add: AppendCrossfage_def Slice_error)
      next
        case tl: (Inr tail_seg)
        have "\<not> 0 < crossfade"
        proof
          assume pos: "0 < crossfade"
          with hi have "int64 (- crossfade) = - crossfade" by (simp add: int64_neg)
          with pos have "int64 (- crossfade) < 0" by simp
          then obtain e where "Slice p (int64 (- crossfade)) lp = Inl e"
            using Slice_negative_start by blast
          with tl show False by simp
        qed
        with nz have "crossfade < 0" by simp
        then obtain e where e: "Slice seg 0 crossfade = Inl e"
          using Slice_negative_end by blast
        with nz lp ls False tl show ?thesis by (simp add: AppendCrossfage_def Slice_error)
      qed
    qed
  qed
qed

text \<open>
  Claim C1, evaluated on the source: two segments of 2 ms each and a crossfade of 1 ms
  satisfy the bounds of the claim, and \<open>AppendCrossfage\<close> panics in
  \<open>p.Slice(-crossfade, p.Len())\<close> instead of returning a segment of 3 ms.
\<close>

theorem crossfade_append_panics:
  "Len plat (seg_1k [1, 2] []) = Inr 2 \<and> Len plat (seg_1k [3, 4] []) = Inr 2
   \<and> AppendCrossfage exact_fit plat (seg_1k [1, 2] []) (seg_1k [3, 4] []) 1
       = Inl SliceBoundsOutOfRange"
  by (simp add: AppendCrossfage_def Len_def FrameCount_def Slice_def reslice_def
      seg_1k_def go_len_def go_cap_def backing_def round_div_def int64_def)

text \<open>
  Claim C6, as stated, fails at the crossfade 0 on a platform where a duration can be
  negative: the segment decoded from \<open>wav_rate0\<close> has one frame and the frame rate 0, its
  duration on \<open>linux_amd64\<close> is the converted infinity \<open>-2\<^sup>6\<^sup>3\<close>, the crossfade 0 exceeds
  it, and \<open>AppendCrossfage\<close> returns the concatenation instead of failing.
\<close>

theorem crossfade_zero_exceeds_negative_duration:
  "new_audio_segment_with_wav \<lparr>elems = wav_rate0, spare = []\<rparr> = Inr (seg_rate0 [1, 2] [])
   \<and> Len (linux_amd64 round_div) (seg_rate0 [1, 2] []) = Inr (- (2 ^ 63))
   \<and> - (2 ^ 63) < (0::int)
   \<and> AppendCrossfage exact_fit (linux_amd64 round_div) (seg_rate0 [1, 2] []) (seg_rate0 [1, 2] []) 0
       = Inr (seg_rate0 [1, 2, 1, 2] [])"
  by (simp add: new_audio_segment_with_wav_def read_wav_data_def extract_wav_headers_def
      wav_rate0_def seg_rate0_def go_len_def reslice_def go_cap_def backing_def
      data_tag_def fmt_tag_def Len_def FrameCount_def linux_amd64_def
      AppendCrossfage_def spawn_def go_append_def exact_fit_def)

text \<open>
  Claim C6, amended: for a crossfade other than 0, when the crossfade exceeds the
  duration of the receiver, \<open>AppendCrossfage\<close> panics with the message for the original
  segment; when it exceeds the duration of the appended segment but not that of the
  receiver, it panics with the message for the appended segment. In both cases no
  segment is returned.
\<close>

theorem crossfade_bounds_enforced:
  "(crossfade \<noteq> 0 \<and> Len plat a = Inr la \<and> la < crossfade
      \<longrightarrow> AppendCrossfage grow plat a b crossfade
            = Inl (CrossfadeLongerThanOriginal crossfade la))
   \<and> (crossfade \<noteq> 0 \<and> Len plat a = Inr la \<and> Len plat b = Inr lb
        \<and> crossfade \<le> la \<and> lb < crossfade
      \<longrightarrow> AppendCrossfage grow plat a b crossfade
            = Inl (CrossfadeLongerThanAppended crossfade lb))"
  by (simp add: AppendCrossfage_def)

text \<open>
  Claim C6, the amended statement at a receiver of 4 ms and an appended segment of
  2 ms: a crossfade of 5 ms is refused for the receiver, one of 3 ms for the appended
  segment. At the receiver with the frame rate 0 a crossfade of 1 ms is refused for the
  receiver, whose duration on \<open>linux_amd64\<close> is \<open>-2\<^sup>6\<^sup>3\<close>.
\<close>

theorem crossfade_bounds_enforced_witness:
  "Len (linux_amd64 round_div) (seg_1k [1, 2, 3, 4] []) = Inr 4
   \<and> Len (linux_amd64 round_div) (seg_1k [5, 6] []) = Inr 2
   \<and> AppendCrossfage exact_fit (linux_amd64 round_div) (seg_1k [1, 2, 3, 4] [])
        (seg_1k [5, 6] []) 5
       = Inl (CrossfadeLongerThanOriginal 5 4)
   \<and> AppendCrossfage exact_fit (linux_amd64 round_div) (seg_1k [1, 2, 3, 4] [])
        (seg_1k [5, 6] []) 3
       = Inl (CrossfadeLongerThanAppended 3 2)
   \<and> Len (linux_amd64 round_div) (seg_rate0 [1, 2] []) = Inr (- (2 ^ 63))
   \<and> AppendCrossfage exact_fit (linux_amd64 round_div) (seg_rate0 [1, 2] [])
        (seg_1k [5, 6] []) 1
       = Inl (CrossfadeLongerThanOriginal 1 (- (2 ^ 63)))"
proof -
  have l0: "Len (linux_amd64 round_div) (seg_rate0 [1, 2] []) = Inr (- (2 ^ 63))"
    by (simp add: Len_def FrameCount_def seg_rate0_def go_len_def linux_amd64_def)
  have la: "Len (linux_amd64 round_div) (seg_1k [1, 2, 3, 4] []) = Inr 4"
    by (simp add: Len_def FrameCount_def seg_1k_def go_len_def round_div_def)
  have lb: "Len (linux_amd64 round_div) (seg_1k [5, 6] []) = Inr 2"
    by (simp add: Len_def FrameCount_def seg_1k_def go_len_def round_div_def)
  show ?thesis
    using la lb l0
      crossfade_bounds_enforced [of 5 "linux_amd64 round_div" "seg_1k [1, 2, 3, 4] []" 4
        exact_fit "seg_1k [5, 6] []" 2]
      crossfade_bounds_enforced [of 3 "linux_amd64 round_div" "seg_1k [1, 2, 3, 4] []" 4
        exact_fit "seg_1k [5, 6] []" 2]
      crossfade_bounds_enforced [of 1 "linux_amd64 round_div" "seg_rate0 [1, 2] []"
        "- (2 ^ 63)" exact_fit "seg_1k [5, 6] []" 2]
    by simp
qed




section \<open>The chunk scanner\<close>

text \<open>The scanner returns at most ten chunks.\<close>

lemma scan_chunks_length:
  "scan_chunks d pos subchunks = Inr r \<Longrightarrow> length subchunks \<le> 10 \<Longrightarrow> length r \<le> 10"
proof (induction d pos subchunks rule: scan_chunks.induct)
  case (1 d pos subchunks)
  show ?case
  proof (cases "pos + 8 < word_of_nat (go_len d) \<and> length subchunks < 10")
    case False
    with "1.prems" show ?thesis by (simp add: scan_chunks.simps [of d pos subchunks])
  next
    case True
    with "1.prems" "1.IH" show ?thesis
      by (auto simp: scan_chunks.simps [of d pos subchunks] split: sum.splits if_splits)
  qed
qed

lemma extract_wav_headers_at_most_ten:
  "extract_wav_headers d = Inr r \<Longrightarrow> length r \<le> 10"
  unfolding extract_wav_headers_def by (erule scan_chunks_length) simp

text \<open>
  With one byte behind the header of the data chunk the scanner returns the two chunks
  of the file and stops at the data chunk.
\<close>

lemma scanner_two_chunks:
  "extract_wav_headers \<lparr>elems = wav_empty_data @ [0], spare = []\<rparr>
   = Inr [\<lparr>id_chunk = fmt_tag, position = 12, size_chunk = 16\<rparr>,
          \<lparr>id_chunk = data_tag, position = 36, size_chunk = 0\<rparr>]"
  by (simp add: extract_wav_headers_def wav_empty_data_def go_len_def reslice_def go_cap_def
      backing_def data_tag_def fmt_tag_def)

text \<open>
  A declared size of \<open>0xFFFFFFE8\<close> moves the position to \<open>0xFFFFFFFC\<close>; the loop
  condition holds for the wrapped sum \<open>pos + 8 = 4\<close>, and the slice expression
  \<open>data[pos : pos+4]\<close> panics.
\<close>

lemma scanner_panics_on_wrapping_size:
  "extract_wav_headers \<lparr>elems = wav_wrapping_size, spare = []\<rparr> = Inl SliceBoundsOutOfRange"
  by (simp add: extract_wav_headers_def wav_wrapping_size_def go_len_def reslice_def go_cap_def
      backing_def data_tag_def)

text \<open>
  Claim C8, evaluated on the source: in the 44-byte file \<open>wav_empty_data\<close> the data
  chunk is the second chunk and its 8-byte header ends the buffer. At position 36
  exactly 8 bytes remain, the loop condition \<open>pos + 8 < len\<close> is false, and the
  scanner returns the format chunk alone.
\<close>

theorem scanner_misses_empty_data_chunk:
  "length wav_empty_data = 44
   \<and> extract_wav_headers \<lparr>elems = wav_empty_data, spare = []\<rparr>
       = Inr [\<lparr>id_chunk = fmt_tag, position = 12, size_chunk = 16\<rparr>]"
  by (simp add: extract_wav_headers_def wav_empty_data_def go_len_def reslice_def go_cap_def
      backing_def data_tag_def fmt_tag_def)

section \<open>Format selection\<close>

text \<open>
  Claim C9, as stated, fails: exporting with the format \<open>mp3\<close> performs no action and
  reports no error, and reading a file that exists with the format \<open>mp3\<close> returns the
  nil pointer without an error.
\<close>

theorem unsupported_format_silent_counterexample:
  "Export UNIV {} (seg_1k [1, 2] []) ''out.mp3'' ''mp3'' = ([], None)
   \<and> From_file [''in.mp3'' \<mapsto> \<lparr>elems = [], spare = []\<rparr>] ''in.mp3'' ''mp3'' = Inr None"
  by (simp add: Export_def From_file_def)

text \<open>
  Claim C9, amended: for every format other than \<open>wav\<close>, \<open>Export\<close> creates and writes
  nothing and returns without an error, and \<open>From_file\<close> returns the nil pointer without
  an error.
\<close>

theorem unsupported_format_is_ignored:
  "format \<noteq> ''wav'' \<Longrightarrow>
     Export creatable rejected p out_f format = ([], None)
     \<and> From_file fs file format = Inr None"
  by (simp add: Export_def From_file_def)

text \<open>Claim C9, the amended statement at the format \<open>mp3\<close>.\<close>

theorem unsupported_format_is_ignored_witness:
  "''mp3'' \<noteq> ''wav''
   \<and> Export UNIV {} (seg_1k [1, 2] []) ''out.mp3'' ''mp3'' = ([], None)
   \<and> From_file Map.empty ''in.mp3'' ''mp3'' = Inr None"
proof -
  have h: "''mp3'' \<noteq> ''wav''" by simp
  show ?thesis
    using h unsupported_format_is_ignored [OF h, of UNIV "{}" "seg_1k [1, 2] []" "''out.mp3''"
        Map.empty "''in.mp3''"]
    by simp
qed

end
